theory Spec2Isabelle
  imports Main "HOL-Library.Word"
begin

section \<open>The network topology declaration of \<open>src/infra/__main__.py\<close>\<close>

text \<open>
  The program is one straight-line Python module. It registers eight resources with the
  provisioning engine, in source order, and exports two stack outputs. Its inputs from
  the outside are the current working directory (\<open>os.getcwd()\<close>), the public-key file
  it reads there, and the reply of the provider to \<open>get_availability_zones()\<close>.

  The embedding keeps the engine symbolic: an attribute of a registered resource is a
  reference that the engine resolves later, a registration appends to the list of
  declared resources, and an export binds a name in the stack outputs. Every raise of
  the module is a branch: the run ends in \<open>Aborted\<close> with the error and the stack as
  it stood at that statement.
\<close>

subsection \<open>Values known only to the engine\<close>

text \<open>
  A resource is identified by its class and its logical name. \<open>Attr\<close> is an
  attribute of a registered resource (\<open>vpc.id\<close>, \<open>instance.public_ip\<close>),
  \<open>Lit\<close> a plain Python string passed where an input is expected, and
  \<open>Concat\<close> the result of \<open>pulumi.Output.concat\<close>.
\<close>

type_synonym urn = "string \<times> string"

datatype Output = Lit string | Attr urn string | Concat "Output list"

text \<open>
  The engine's resolution of an output, given the attribute values it has learnt from
  the provider: \<open>Output.concat\<close> joins the resolved arguments in order.
\<close>

fun resolve :: "(urn \<Rightarrow> string \<Rightarrow> string) \<Rightarrow> Output \<Rightarrow> string" where
  "resolve known (Lit s) = s"
| "resolve known (Attr u a) = known u a"
| "resolve known (Concat xs) = concat (map (resolve known) xs)"

subsection \<open>Resource arguments\<close>

record VpcArgs =
  cidr_block :: string
  enable_dns_hostnames :: bool
  enable_dns_support :: bool
  tags :: "(string \<times> string) list"

record InternetGatewayArgs =
  vpc_id :: Output
  tags :: "(string \<times> string) list"

record SubnetArgs =
  vpc_id :: Output
  cidr_block :: string
  map_public_ip_on_launch :: bool
  availability_zone :: string
  tags :: "(string \<times> string) list"

record RouteTableRouteArgs =
  cidr_block :: string
  gateway_id :: Output

record RouteTableArgs =
  vpc_id :: Output
  routes :: "RouteTableRouteArgs list"
  tags :: "(string \<times> string) list"

record RouteTableAssociationArgs =
  subnet_id :: Output
  route_table_id :: Output

record SecurityGroupIngressArgs =
  description :: string
  from_port :: int
  to_port :: int
  protocol :: string
  cidr_blocks :: "string list"

record SecurityGroupEgressArgs =
  from_port :: int
  to_port :: int
  protocol :: string
  cidr_blocks :: "string list"

record SecurityGroupArgs =
  description :: string
  vpc_id :: Output
  ingress :: "SecurityGroupIngressArgs list"
  egress :: "SecurityGroupEgressArgs list"
  tags :: "(string \<times> string) list"

record KeyPairArgs =
  key_name :: string
  public_key :: string

record InstanceArgs =
  instance_type :: string
  ami :: string
  subnet_id :: Output
  vpc_security_group_ids :: "Output list"
  key_name :: Output
  tags :: "(string \<times> string) list"

text \<open>
  A registered resource: its class, its logical name (the first constructor argument)
  and its arguments.
\<close>

datatype resource =
    is_Vpc: Vpc (name: string) (vpc_args: VpcArgs)
  | is_InternetGateway: InternetGateway (name: string) (internet_gateway_args: InternetGatewayArgs)
  | is_Subnet: Subnet (name: string) (subnet_args: SubnetArgs)
  | is_RouteTable: RouteTable (name: string) (route_table_args: RouteTableArgs)
  | is_RouteTableAssociation:
      RouteTableAssociation (name: string) (route_table_association_args: RouteTableAssociationArgs)
  | is_SecurityGroup: SecurityGroup (name: string) (security_group_args: SecurityGroupArgs)
  | is_KeyPair: KeyPair (name: string) (key_pair_args: KeyPairArgs)
  | is_Instance: Instance (name: string) (instance_args: InstanceArgs)

fun urn_of :: "resource \<Rightarrow> urn" where
  "urn_of (Vpc n a) = (''Vpc'', n)"
| "urn_of (InternetGateway n a) = (''InternetGateway'', n)"
| "urn_of (Subnet n a) = (''Subnet'', n)"
| "urn_of (RouteTable n a) = (''RouteTable'', n)"
| "urn_of (RouteTableAssociation n a) = (''RouteTableAssociation'', n)"
| "urn_of (SecurityGroup n a) = (''SecurityGroup'', n)"
| "urn_of (KeyPair n a) = (''KeyPair'', n)"
| "urn_of (Instance n a) = (''Instance'', n)"

text \<open>Reading an attribute of a resource object (\<open>r.id\<close>, \<open>r.key_name\<close>, \<open>r.public_ip\<close>).\<close>

definition attr :: "resource \<Rightarrow> string \<Rightarrow> Output" where
  "attr r a = Attr (urn_of r) a"

subsection \<open>Errors, the environment and the stack\<close>

datatype error =
    FileNotFoundError string
  | PermissionError string
  | IsADirectoryError string
  | UnicodeDecodeError
  | IndexError
  | InvokeError string

text \<open>
  \<open>cwd\<close> is what \<open>os.getcwd()\<close> returns. \<open>files p\<close> is what opening \<open>p\<close> for reading
  in text mode finds: the error \<open>open\<close> or the decoder raises, or the decoded text of
  the file. \<open>availability_zones\<close> is the reply to \<open>get_availability_zones()\<close>: the
  error of a failed invoke, or the \<open>names\<close> of the result.
\<close>

record env =
  cwd :: string
  files :: "string \<Rightarrow> error + string"
  availability_zones :: "error + string list"

text \<open>
  The stack under construction: the resources registered so far, in order, the exported
  outputs, and the paths opened for reading so far.
\<close>

record stack =
  resources :: "resource list"
  outputs :: "(string \<times> Output) list"
  opened :: "string list"

datatype outcome = Finished stack | Aborted error stack

fun stack_of :: "outcome \<Rightarrow> stack" where
  "stack_of (Finished st) = st"
| "stack_of (Aborted err st) = st"

definition empty_stack :: stack where
  "empty_stack = \<lparr>resources = [], outputs = [], opened = []\<rparr>"

definition register_resource :: "resource \<Rightarrow> stack \<Rightarrow> stack" where
  "register_resource r st = st\<lparr>resources := resources st @ [r]\<rparr>"

text \<open>\<open>pulumi.export(name, value)\<close> stores into the dictionary of stack outputs.\<close>

fun update_binding :: "string \<Rightarrow> Output \<Rightarrow> (string \<times> Output) list \<Rightarrow> (string \<times> Output) list" where
  "update_binding k v [] = [(k, v)]"
| "update_binding k v (p # ps) = (if fst p = k then (k, v) # ps else p # update_binding k v ps)"

definition pulumi_export :: "string \<Rightarrow> Output \<Rightarrow> stack \<Rightarrow> stack" where
  "pulumi_export key v st = st\<lparr>outputs := update_binding key v (outputs st)\<rparr>"

subsection \<open>Library calls of the module\<close>

definition startswith :: "string \<Rightarrow> string \<Rightarrow> bool" where
  "startswith s p = (take (length p) s = p)"

definition endswith :: "string \<Rightarrow> string \<Rightarrow> bool" where
  "endswith s p = (length p \<le> length s \<and> drop (length s - length p) s = p)"

text \<open>
  \<open>os.path\<close> is the path module of the platform the module runs on:
  \<open>posixpath\<close> on a POSIX system, \<open>ntpath\<close> on Windows, which joins with a
  backslash. The declaration is parametric in the platform's \<open>os.path.join\<close>.
\<close>

type_synonym path_join = "string \<Rightarrow> string \<Rightarrow> string"

text \<open>
  \<open>posixpath.join(a, b)\<close> with one component: an absolute \<open>b\<close> replaces
  \<open>a\<close>; no separator is added after an \<open>a\<close> that is empty or already ends with
  one.
\<close>

definition posixpath_join :: path_join where
  "posixpath_join a b =
     (if startswith b ''/'' then b
      else if a = [] \<or> endswith a ''/'' then a @ b
      else a @ ''/'' @ b)"

text \<open>
  \<open>open(path).read()\<close> opens in text mode with the default \<open>newline=None\<close>: on
  reading, each \<open>\r\n\<close> and each lone \<open>\r\<close> is returned as \<open>\n\<close>.
\<close>

fun universal_newlines :: "string \<Rightarrow> string" where
  "universal_newlines [] = []"
| "universal_newlines [c] = (if c = CHR 0x0D then [CHR 0x0A] else [c])"
| "universal_newlines (c # d # cs) =
     (if c = CHR 0x0D \<and> d = CHR 0x0A then CHR 0x0A # universal_newlines cs
      else if c = CHR 0x0D then CHR 0x0A # universal_newlines (d # cs)
      else c # universal_newlines (d # cs))"

definition open_read :: "env \<Rightarrow> string \<Rightarrow> stack \<Rightarrow> (error + string) \<times> stack" where
  "open_read e path st =
     (case files e path of
        Inl err \<Rightarrow> (Inl err, st\<lparr>opened := opened st @ [path]\<rparr>)
      | Inr text \<Rightarrow> (Inr (universal_newlines text), st\<lparr>opened := opened st @ [path]\<rparr>))"

text \<open>\<open>get_availability_zones().names[0]\<close>: the invoke may fail, and so may the index.\<close>

definition first_availability_zone :: "env \<Rightarrow> error + string" where
  "first_availability_zone e =
     (case availability_zones e of
        Inl err \<Rightarrow> Inl err
      | Inr names \<Rightarrow> (case names of [] \<Rightarrow> Inl IndexError | z # zs \<Rightarrow> Inr z))"

subsection \<open>The declarations, in source order\<close>

definition vpc :: resource where
  "vpc = Vpc ''my-vpc''
     \<lparr>VpcArgs.cidr_block = ''10.0.0.0/16'',
      enable_dns_hostnames = True,
      enable_dns_support = True,
      VpcArgs.tags = [(''Name'', ''my-vpc'')]\<rparr>"

definition igw :: resource where
  "igw = InternetGateway ''my-igw''
     \<lparr>InternetGatewayArgs.vpc_id = attr vpc ''id'',
      InternetGatewayArgs.tags = [(''Name'', ''my-igw'')]\<rparr>"

definition public_subnet :: "string \<Rightarrow> resource" where
  "public_subnet az = Subnet ''public-subnet''
     \<lparr>SubnetArgs.vpc_id = attr vpc ''id'',
      SubnetArgs.cidr_block = ''10.0.1.0/24'',
      map_public_ip_on_launch = True,
      availability_zone = az,
      SubnetArgs.tags = [(''Name'', ''public-subnet'')]\<rparr>"

definition route_table :: resource where
  "route_table = RouteTable ''public-route-table''
     \<lparr>RouteTableArgs.vpc_id = attr vpc ''id'',
      routes = [\<lparr>RouteTableRouteArgs.cidr_block = ''0.0.0.0/0'',
                 gateway_id = attr igw ''id''\<rparr>],
      RouteTableArgs.tags = [(''Name'', ''public-route-table'')]\<rparr>"

definition route_table_association :: "string \<Rightarrow> resource" where
  "route_table_association az = RouteTableAssociation ''public-route-table-association''
     \<lparr>RouteTableAssociationArgs.subnet_id = attr (public_subnet az) ''id'',
      route_table_id = attr route_table ''id''\<rparr>"

definition ssh_security_group :: resource where
  "ssh_security_group = SecurityGroup ''ssh-security-group''
     \<lparr>SecurityGroupArgs.description = ''Allow SSH access'',
      SecurityGroupArgs.vpc_id = attr vpc ''id'',
      ingress = [\<lparr>SecurityGroupIngressArgs.description = ''SSH from anywhere'',
                  SecurityGroupIngressArgs.from_port = 22,
                  SecurityGroupIngressArgs.to_port = 22,
                  SecurityGroupIngressArgs.protocol = ''tcp'',
                  SecurityGroupIngressArgs.cidr_blocks = [''0.0.0.0/0'']\<rparr>],
      egress = [\<lparr>SecurityGroupEgressArgs.from_port = 0,
                 SecurityGroupEgressArgs.to_port = 0,
                 SecurityGroupEgressArgs.protocol = ''-1'',
                 SecurityGroupEgressArgs.cidr_blocks = [''0.0.0.0/0'']\<rparr>],
      SecurityGroupArgs.tags = [(''Name'', ''ssh-security-group'')]\<rparr>"

definition key_pair :: "string \<Rightarrow> resource" where
  "key_pair key_text = KeyPair ''my-key-pair''
     \<lparr>KeyPairArgs.key_name = ''my-key-pair'',
      public_key = key_text\<rparr>"

definition ec2_instance :: "string \<Rightarrow> string \<Rightarrow> resource" where
  "ec2_instance az key_text = Instance ''my-instance''
     \<lparr>instance_type = ''t2.micro'',
      ami = ''ami-060e277c0d4cce553'',
      InstanceArgs.subnet_id = attr (public_subnet az) ''id'',
      vpc_security_group_ids = [attr ssh_security_group ''id''],
      InstanceArgs.key_name = attr (key_pair key_text) ''key_name'',
      InstanceArgs.tags = [(''Name'', ''my-instance'')]\<rparr>"

text \<open>
  The path of the file the key pair is read from (line 64), built by the platform's
  \<open>os.path.join\<close>.
\<close>

definition public_key_path :: "path_join \<Rightarrow> string \<Rightarrow> string" where
  "public_key_path os_path_join current_dir = os_path_join current_dir ''id_rsa_pulumi.pub''"

text \<open>The value exported as \<open>ssh_command\<close> (line 81).\<close>

definition ssh_command :: "string \<Rightarrow> Output \<Rightarrow> Output" where
  "ssh_command current_dir public_ip =
     Concat [Lit ''ssh -i '', Lit current_dir, Lit ''/id_rsa_pulumi ubuntu@'', public_ip]"

text \<open>
  The module body, on a platform whose \<open>os.path.join\<close> is \<open>os_path_join\<close>. The
  availability zone is looked up while the subnet's arguments are
  evaluated, after the VPC and the gateway are registered; the key file is read while
  the key pair's arguments are evaluated, after the security group is registered.
\<close>

definition main :: "path_join \<Rightarrow> env \<Rightarrow> outcome" where
  "main os_path_join e =
     (let st1 = register_resource vpc empty_stack;
          st2 = register_resource igw st1
      in case first_availability_zone e of
           Inl err \<Rightarrow> Aborted err st2
         | Inr az \<Rightarrow>
             (let st3 = register_resource (public_subnet az) st2;
                  st4 = register_resource route_table st3;
                  st5 = register_resource (route_table_association az) st4;
                  st6 = register_resource ssh_security_group st5;
                  current_dir = cwd e;
                  (text, st7) = open_read e (public_key_path os_path_join current_dir) st6
              in case text of
                   Inl err \<Rightarrow> Aborted err st7
                 | Inr key_text \<Rightarrow>
                     (let st8 = register_resource (key_pair key_text) st7;
                          instance = ec2_instance az key_text;
                          st9 = register_resource instance st8;
                          st10 = pulumi_export ''instance_public_ip''
                                   (attr instance ''public_ip'') st9;
                          st11 = pulumi_export ''ssh_command''
                                   (ssh_command current_dir (attr instance ''public_ip'')) st10
                      in Finished st11)))"

subsection \<open>CIDR notation\<close>

text \<open>
  The module passes its address ranges as strings; the provider reads them as IPv4 CIDR
  blocks: four decimal octets and a prefix length of at most 32. An address belongs to
  a block when it agrees with the block's base address on the first \<open>len\<close> bits.
\<close>

type_synonym ipv4 = "32 word"

definition digit_value :: "char \<Rightarrow> nat option" where
  "digit_value c =
     (let n = of_char c :: nat in if 48 \<le> n \<and> n \<le> 57 then Some (n - 48) else None)"

fun parse_digits :: "nat \<Rightarrow> string \<Rightarrow> nat option" where
  "parse_digits acc [] = Some acc"
| "parse_digits acc (c # cs) =
     (case digit_value c of None \<Rightarrow> None | Some d \<Rightarrow> parse_digits (10 * acc + d) cs)"

definition parse_nat :: "string \<Rightarrow> nat option" where
  "parse_nat s = (if s = [] then None else parse_digits 0 s)"

fun split_on :: "char \<Rightarrow> string \<Rightarrow> string list" where
  "split_on sep [] = [[]]"
| "split_on sep (c # cs) =
     (if c = sep then [] # split_on sep cs
      else (case split_on sep cs of [] \<Rightarrow> [[c]] | w # ws \<Rightarrow> (c # w) # ws))"

definition parse_octet :: "string \<Rightarrow> nat option" where
  "parse_octet s = (case parse_nat s of None \<Rightarrow> None | Some n \<Rightarrow> if n \<le> 255 then Some n else None)"

definition parse_ipv4 :: "string \<Rightarrow> ipv4 option" where
  "parse_ipv4 s =
     (case map parse_octet (split_on (CHR ''.'') s) of
        [Some a, Some b, Some c, Some d] \<Rightarrow>
          Some (of_nat (((a * 256 + b) * 256 + c) * 256 + d))
      | _ \<Rightarrow> None)"

definition parse_cidr :: "string \<Rightarrow> (ipv4 \<times> nat) option" where
  "parse_cidr s =
     (case split_on (CHR ''/'') s of
        [a, l] \<Rightarrow>
          (case (parse_ipv4 a, parse_nat l) of
             (Some base, Some len) \<Rightarrow> if len \<le> 32 then Some (base, len) else None
           | _ \<Rightarrow> None)
      | _ \<Rightarrow> None)"

definition cidr_member :: "ipv4 \<times> nat \<Rightarrow> ipv4 \<Rightarrow> bool" where
  "cidr_member block a = (drop_bit (32 - snd block) a = drop_bit (32 - snd block) (fst block))"

subsection \<open>Environments to run the module in\<close>

definition example_key :: string where
  "example_key = ''ssh-rsa AAAAB3NzaC1yc2E ubuntu@host'' @ [CHR 0x0A]"

definition example_env :: env where
  "example_env =
     \<lparr>cwd = ''/home/ubuntu/infra'',
      files = (\<lambda>p. if p = ''/home/ubuntu/infra/id_rsa_pulumi.pub'' then Inr example_key
                   else Inl (FileNotFoundError p)),
      availability_zones = Inr [''ap-southeast-1a'', ''ap-southeast-1b'', ''ap-southeast-1c'']\<rparr>"

text \<open>The same directory and files, the provider configured for another region.\<close>

definition other_region_env :: env where
  "other_region_env = example_env\<lparr>availability_zones := Inr [''us-east-1a'', ''us-east-1b'']\<rparr>"

text \<open>
  The same directory, key file and first zone; other files beside the key and a
  shorter list of zones.
\<close>

definition crowded_env :: env where
  "crowded_env =
     \<lparr>cwd = ''/home/ubuntu/infra'',
      files = (\<lambda>p. if p = ''/home/ubuntu/infra/id_rsa_pulumi.pub'' then Inr example_key
                   else Inr ''unrelated''),
      availability_zones = Inr [''ap-southeast-1a'']\<rparr>"

text \<open>No key file in the working directory.\<close>

definition missing_key_env :: env where
  "missing_key_env = example_env\<lparr>files := (\<lambda>p. Inl (FileNotFoundError p))\<rparr>"

text \<open>A key file whose line ends with carriage return and line feed.\<close>

definition crlf_key :: string where
  "crlf_key = ''ssh-rsa AAAAB3NzaC1yc2E ubuntu@host'' @ [CHR 0x0D, CHR 0x0A]"

definition crlf_env :: env where
  "crlf_env = example_env\<lparr>files := (\<lambda>p. Inr crlf_key)\<rparr>"

text \<open>The module run from the root directory.\<close>

definition root_env :: env where
  "root_env =
     \<lparr>cwd = ''/'',
      files = (\<lambda>p. if p = ''/id_rsa_pulumi.pub'' then Inr example_key
                   else Inl (FileNotFoundError p)),
      availability_zones = Inr [''ap-southeast-1a'']\<rparr>"

text \<open>What the engine learns once the instance exists.\<close>

definition example_known :: "urn \<Rightarrow> string \<Rightarrow> string" where
  "example_known u a =
     (if u = (''Instance'', ''my-instance'') \<and> a = ''public_ip'' then ''203.0.113.10'' else [])"


section \<open>Properties of the declaration\<close>

subsection \<open>What a run registers\<close>

lemma first_availability_zone_Inr:
  "first_availability_zone e = Inr az \<longleftrightarrow> (\<exists>zs. availability_zones e = Inr (az # zs))"
  by (auto simp: first_availability_zone_def split: sum.splits list.splits)

lemma main_finished:
  assumes "first_availability_zone e = Inr z"
    and "files e (public_key_path os_path_join (cwd e)) = Inr contents"
  shows "main os_path_join e = Finished
     \<lparr>resources = [vpc, igw, public_subnet z, route_table, route_table_association z,
                   ssh_security_group, key_pair (universal_newlines contents),
                   ec2_instance z (universal_newlines contents)],
      outputs = [(''instance_public_ip'',
                    attr (ec2_instance z (universal_newlines contents)) ''public_ip''),
                 (''ssh_command'',
                    ssh_command (cwd e)
                      (attr (ec2_instance z (universal_newlines contents)) ''public_ip''))],
      opened = [public_key_path os_path_join (cwd e)]\<rparr>"
  using assms
  by (simp add: main_def open_read_def register_resource_def
      pulumi_export_def empty_stack_def Let_def)

lemma main_key_read_failed:
  assumes "first_availability_zone e = Inr z"
    and "files e (public_key_path os_path_join (cwd e)) = Inl err"
  shows "main os_path_join e = Aborted err
     \<lparr>resources = [vpc, igw, public_subnet z, route_table, route_table_association z,
                   ssh_security_group],
      outputs = [],
      opened = [public_key_path os_path_join (cwd e)]\<rparr>"
  using assms
  by (simp add: main_def open_read_def register_resource_def empty_stack_def)

lemma main_zone_lookup_failed:
  assumes "first_availability_zone e = Inl err"
  shows "main os_path_join e = Aborted err \<lparr>resources = [vpc, igw], outputs = [], opened = []\<rparr>"
  using assms by (simp add: main_def register_resource_def empty_stack_def)

lemma main_FinishedD:
  assumes "main os_path_join e = Finished st"
  obtains z contents where "first_availability_zone e = Inr z"
    and "files e (public_key_path os_path_join (cwd e)) = Inr contents"
proof (cases "first_availability_zone e")
  case (Inl err)
  with assms show ?thesis by (simp add: main_zone_lookup_failed)
next
  case az: (Inr z)
  show ?thesis
  proof (cases "files e (public_key_path os_path_join (cwd e))")
    case (Inl err)
    with assms az show ?thesis by (simp add: main_key_read_failed)
  next
    case (Inr contents)
    with az that show ?thesis by blast
  qed
qed

lemma example_env_inputs:
  "first_availability_zone example_env = Inr ''ap-southeast-1a''"
  "cwd example_env = ''/home/ubuntu/infra''"
  "public_key_path posixpath_join ''/home/ubuntu/infra'' = ''/home/ubuntu/infra/id_rsa_pulumi.pub''"
  "files example_env ''/home/ubuntu/infra/id_rsa_pulumi.pub'' = Inr example_key"
  by (simp_all add: example_env_def first_availability_zone_def public_key_path_def posixpath_join_def
      startswith_def endswith_def)

lemma main_example_env:
  "main posixpath_join example_env = Finished
     \<lparr>resources = [vpc, igw, public_subnet ''ap-southeast-1a'', route_table,
                   route_table_association ''ap-southeast-1a'', ssh_security_group,
                   key_pair (universal_newlines example_key),
                   ec2_instance ''ap-southeast-1a'' (universal_newlines example_key)],
      outputs = [(''instance_public_ip'',
                    attr (ec2_instance ''ap-southeast-1a'' (universal_newlines example_key))
                      ''public_ip''),
                 (''ssh_command'',
                    ssh_command ''/home/ubuntu/infra''
                      (attr (ec2_instance ''ap-southeast-1a'' (universal_newlines example_key))
                        ''public_ip''))],
      opened = [''/home/ubuntu/infra/id_rsa_pulumi.pub'']\<rparr>"
  using main_finished [where e = example_env and os_path_join = posixpath_join
      and contents = example_key]
  by (simp add: example_env_inputs)

lemmas declared_defs =
  vpc_def igw_def public_subnet_def route_table_def route_table_association_def
  ssh_security_group_def key_pair_def ec2_instance_def

lemma declared_kinds [simp]:
  "is_Vpc vpc" "\<not> is_InternetGateway vpc" "\<not> is_Subnet vpc" "\<not> is_RouteTable vpc"
  "\<not> is_RouteTableAssociation vpc" "\<not> is_SecurityGroup vpc" "\<not> is_KeyPair vpc" "\<not> is_Instance vpc"
  "\<not> is_Vpc igw" "is_InternetGateway igw" "\<not> is_Subnet igw" "\<not> is_RouteTable igw"
  "\<not> is_RouteTableAssociation igw" "\<not> is_SecurityGroup igw" "\<not> is_KeyPair igw" "\<not> is_Instance igw"
  "\<not> is_Vpc (public_subnet z)" "\<not> is_InternetGateway (public_subnet z)" "is_Subnet (public_subnet z)" "\<not> is_RouteTable (public_subnet z)"
  "\<not> is_RouteTableAssociation (public_subnet z)" "\<not> is_SecurityGroup (public_subnet z)" "\<not> is_KeyPair (public_subnet z)" "\<not> is_Instance (public_subnet z)"
  "\<not> is_Vpc route_table" "\<not> is_InternetGateway route_table" "\<not> is_Subnet route_table" "is_RouteTable route_table"
  "\<not> is_RouteTableAssociation route_table" "\<not> is_SecurityGroup route_table" "\<not> is_KeyPair route_table" "\<not> is_Instance route_table"
  "\<not> is_Vpc (route_table_association z)" "\<not> is_InternetGateway (route_table_association z)" "\<not> is_Subnet (route_table_association z)" "\<not> is_RouteTable (route_table_association z)"
  "is_RouteTableAssociation (route_table_association z)" "\<not> is_SecurityGroup (route_table_association z)" "\<not> is_KeyPair (route_table_association z)" "\<not> is_Instance (route_table_association z)"
  "\<not> is_Vpc ssh_security_group" "\<not> is_InternetGateway ssh_security_group" "\<not> is_Subnet ssh_security_group" "\<not> is_RouteTable ssh_security_group"
  "\<not> is_RouteTableAssociation ssh_security_group" "is_SecurityGroup ssh_security_group" "\<not> is_KeyPair ssh_security_group" "\<not> is_Instance ssh_security_group"
  "\<not> is_Vpc (key_pair k)" "\<not> is_InternetGateway (key_pair k)" "\<not> is_Subnet (key_pair k)" "\<not> is_RouteTable (key_pair k)"
  "\<not> is_RouteTableAssociation (key_pair k)" "\<not> is_SecurityGroup (key_pair k)" "is_KeyPair (key_pair k)" "\<not> is_Instance (key_pair k)"
  "\<not> is_Vpc (ec2_instance z k)" "\<not> is_InternetGateway (ec2_instance z k)" "\<not> is_Subnet (ec2_instance z k)" "\<not> is_RouteTable (ec2_instance z k)"
  "\<not> is_RouteTableAssociation (ec2_instance z k)" "\<not> is_SecurityGroup (ec2_instance z k)" "\<not> is_KeyPair (ec2_instance z k)" "is_Instance (ec2_instance z k)"
  by (simp_all add: declared_defs)


lemma attr_declared:
  "attr vpc a = Attr (''Vpc'', ''my-vpc'') a"
  "attr igw a = Attr (''InternetGateway'', ''my-igw'') a"
  "attr (public_subnet z) a = Attr (''Subnet'', ''public-subnet'') a"
  "attr route_table a = Attr (''RouteTable'', ''public-route-table'') a"
  "attr (route_table_association z) a =
     Attr (''RouteTableAssociation'', ''public-route-table-association'') a"
  "attr ssh_security_group a = Attr (''SecurityGroup'', ''ssh-security-group'') a"
  "attr (key_pair k) a = Attr (''KeyPair'', ''my-key-pair'') a"
  "attr (ec2_instance z k) a = Attr (''Instance'', ''my-instance'') a"
  by (simp_all add: declared_defs attr_def)

lemma main_Finished_stack:
  assumes "main os_path_join e = Finished st"
  obtains z contents where "first_availability_zone e = Inr z"
    and "files e (public_key_path os_path_join (cwd e)) = Inr contents"
    and "resources st = [vpc, igw, public_subnet z, route_table, route_table_association z,
           ssh_security_group, key_pair (universal_newlines contents),
           ec2_instance z (universal_newlines contents)]"
    and "outputs st = [(''instance_public_ip'',
                    attr (ec2_instance z (universal_newlines contents)) ''public_ip''),
                 (''ssh_command'',
                    ssh_command (cwd e)
                      (attr (ec2_instance z (universal_newlines contents)) ''public_ip''))]"
    and "opened st = [public_key_path os_path_join (cwd e)]"
proof -
  from assms obtain z contents where in_ok:
    "first_availability_zone e = Inr z" "files e (public_key_path os_path_join (cwd e)) = Inr contents"
    by (rule main_FinishedD)
  from main_finished [OF this] assms
  have "st = \<lparr>resources = [vpc, igw, public_subnet z, route_table, route_table_association z,
                   ssh_security_group, key_pair (universal_newlines contents),
                   ec2_instance z (universal_newlines contents)],
      outputs = [(''instance_public_ip'',
                    attr (ec2_instance z (universal_newlines contents)) ''public_ip''),
                 (''ssh_command'',
                    ssh_command (cwd e)
                      (attr (ec2_instance z (universal_newlines contents)) ''public_ip''))],
      opened = [public_key_path os_path_join (cwd e)]\<rparr>"
    by simp
  with in_ok that show ?thesis by simp
qed

subsection \<open>The exported SSH command\<close>



subsection \<open>The key pair and the file it is read from\<close>

lemma universal_newlines_without_cr:
  "CHR 0x0D \<notin> set s \<Longrightarrow> universal_newlines s = s"
  by (induction s rule: universal_newlines.induct) auto

lemma universal_newlines_crlf_key: "universal_newlines crlf_key = example_key"
  by (simp add: crlf_key_def example_key_def)

lemma universal_newlines_example_key: "universal_newlines example_key = example_key"
  by (simp add: example_key_def)

text \<open>
  Claim C2, as the code has it. The public key of the one declared key pair is the text
  that reading the file in text mode returns: the contents of the file at
  \<open>os.path.join(current_dir, "id_rsa_pulumi.pub")\<close> with every \<open>\r\n\<close> and
  every lone \<open>\r\<close> replaced by \<open>\n\<close>. For contents without a carriage return this
  is the contents, character for character.
\<close>

theorem key_pair_public_key:
  assumes "main os_path_join e = Finished st"
    and "files e (public_key_path os_path_join (cwd e)) = Inr contents"
  shows "map public_key (map key_pair_args (filter is_KeyPair (resources st)))
           = [universal_newlines contents]
         \<and> (CHR 0x0D \<notin> set contents \<longrightarrow>
              map public_key (map key_pair_args (filter is_KeyPair (resources st))) = [contents])"
proof -
  from assms(1) obtain z c where
    c: "files e (public_key_path os_path_join (cwd e)) = Inr c"
    and r: "resources st = [vpc, igw, public_subnet z, route_table, route_table_association z,
           ssh_security_group, key_pair (universal_newlines c),
           ec2_instance z (universal_newlines c)]"
    by (rule main_Finished_stack)
  from c assms(2) have "c = contents" by simp
  with r have "map public_key (map key_pair_args (filter is_KeyPair (resources st)))
           = [universal_newlines contents]"
    by (simp add: key_pair_def)
  then show ?thesis
    by (simp add: universal_newlines_without_cr)
qed

theorem key_pair_public_key_witness:
  "\<exists>st. main posixpath_join example_env = Finished st
     \<and> files example_env (public_key_path posixpath_join (cwd example_env)) = Inr example_key
     \<and> CHR 0x0D \<notin> set example_key
     \<and> map public_key (map key_pair_args (filter is_KeyPair (resources st))) = [example_key]"
proof -
  obtain st where run: "main posixpath_join example_env = Finished st"
    using main_example_env by blast
  have contents_ok: "files example_env (public_key_path posixpath_join (cwd example_env)) = Inr example_key"
    by (simp add: example_env_inputs)
  have no_cr: "CHR 0x0D \<notin> set example_key"
    by (simp add: example_key_def)
  have "map public_key (map key_pair_args (filter is_KeyPair (resources st))) = [example_key]"
    by (rule key_pair_public_key [OF run contents_ok, THEN conjunct2, THEN mp, OF no_cr])
  with run contents_ok no_cr show ?thesis
    by - (rule exI [of _ st], simp)
qed

text \<open>
  The claim as stated, for every possible contents, fails on a file whose line ends with
  carriage return and line feed: the key pair receives the line ended by a line feed
  alone.
\<close>

lemma crlf_env_inputs:
  "first_availability_zone crlf_env = Inr ''ap-southeast-1a''"
  "cwd crlf_env = ''/home/ubuntu/infra''"
  "files crlf_env p = Inr crlf_key"
  by (simp_all add: crlf_env_def example_env_def first_availability_zone_def)

theorem key_pair_public_key_crlf_counterexample:
  "files crlf_env (public_key_path posixpath_join (cwd crlf_env)) = Inr crlf_key
   \<and> main posixpath_join crlf_env = Finished (stack_of (main posixpath_join crlf_env))
   \<and> map public_key (map key_pair_args (filter is_KeyPair (resources (stack_of (main posixpath_join crlf_env)))))
       = [example_key]
   \<and> example_key \<noteq> crlf_key"
proof -
  have "example_key \<noteq> crlf_key"
    by (simp add: example_key_def crlf_key_def)
  then show ?thesis
    using main_finished [where e = crlf_env and os_path_join = posixpath_join
        and contents = crlf_key]
    by (simp add: crlf_env_inputs universal_newlines_crlf_key key_pair_def)
qed

subsection \<open>Routing and the security group\<close>

text \<open>
  Claim C3. A finished run declares one internet gateway and one route table; the route
  table has exactly one route, to \<open>0.0.0.0/0\<close>, through the \<open>id\<close> of that gateway.
\<close>

theorem route_table_single_default_route:
  assumes "main os_path_join e = Finished st"
  shows "\<exists>g t. filter is_InternetGateway (resources st) = [g]
           \<and> filter is_RouteTable (resources st) = [t]
           \<and> length (routes (route_table_args t)) = 1
           \<and> routes (route_table_args t) =
               [\<lparr>RouteTableRouteArgs.cidr_block = ''0.0.0.0/0'', gateway_id = attr g ''id''\<rparr>]"
proof -
  from assms obtain z c where
    "resources st = [vpc, igw, public_subnet z, route_table, route_table_association z,
           ssh_security_group, key_pair (universal_newlines c),
           ec2_instance z (universal_newlines c)]"
    by (rule main_Finished_stack)
  then show ?thesis
    by (simp add: route_table_def)
qed

theorem route_table_single_default_route_witness:
  "\<exists>st. main posixpath_join example_env = Finished st
     \<and> (\<exists>g t. filter is_InternetGateway (resources st) = [g]
           \<and> filter is_RouteTable (resources st) = [t]
           \<and> length (routes (route_table_args t)) = 1
           \<and> routes (route_table_args t) =
               [\<lparr>RouteTableRouteArgs.cidr_block = ''0.0.0.0/0'', gateway_id = attr g ''id''\<rparr>])"
proof -
  obtain st where run: "main posixpath_join example_env = Finished st"
    using main_example_env by blast
  from route_table_single_default_route [OF run] run show ?thesis
    by - (rule exI [of _ st], simp)
qed

text \<open>
  Claim C4. The one declared security group has an ingress rule for TCP from port 22 to
  port 22 from \<open>0.0.0.0/0\<close>, and an egress rule for protocol \<open>-1\<close> with both ports 0
  to \<open>0.0.0.0/0\<close>.
\<close>

theorem security_group_rules:
  assumes "main os_path_join e = Finished st"
  shows "\<exists>sg i g. filter is_SecurityGroup (resources st) = [sg]
           \<and> ingress (security_group_args sg) = [i]
           \<and> SecurityGroupIngressArgs.protocol i = ''tcp''
           \<and> SecurityGroupIngressArgs.from_port i = 22
           \<and> SecurityGroupIngressArgs.to_port i = 22
           \<and> SecurityGroupIngressArgs.cidr_blocks i = [''0.0.0.0/0'']
           \<and> egress (security_group_args sg) = [g]
           \<and> SecurityGroupEgressArgs.protocol g = ''-1''
           \<and> SecurityGroupEgressArgs.from_port g = 0
           \<and> SecurityGroupEgressArgs.to_port g = 0
           \<and> SecurityGroupEgressArgs.cidr_blocks g = [''0.0.0.0/0'']"
proof -
  from assms obtain z c where
    "resources st = [vpc, igw, public_subnet z, route_table, route_table_association z,
           ssh_security_group, key_pair (universal_newlines c),
           ec2_instance z (universal_newlines c)]"
    by (rule main_Finished_stack)
  then show ?thesis
    by (simp add: ssh_security_group_def)
qed

theorem security_group_rules_witness:
  "\<exists>st. main posixpath_join example_env = Finished st
     \<and> (\<exists>sg i g. filter is_SecurityGroup (resources st) = [sg]
           \<and> ingress (security_group_args sg) = [i]
           \<and> SecurityGroupIngressArgs.protocol i = ''tcp''
           \<and> SecurityGroupIngressArgs.from_port i = 22
           \<and> SecurityGroupIngressArgs.to_port i = 22
           \<and> SecurityGroupIngressArgs.cidr_blocks i = [''0.0.0.0/0'']
           \<and> egress (security_group_args sg) = [g]
           \<and> SecurityGroupEgressArgs.protocol g = ''-1''
           \<and> SecurityGroupEgressArgs.from_port g = 0
           \<and> SecurityGroupEgressArgs.to_port g = 0
           \<and> SecurityGroupEgressArgs.cidr_blocks g = [''0.0.0.0/0''])"
proof -
  obtain st where run: "main posixpath_join example_env = Finished st"
    using main_example_env by blast
  from security_group_rules [OF run] run show ?thesis
    by - (rule exI [of _ st], simp)
qed

subsection \<open>Outputs and the shape of the declaration\<close>





subsection \<open>Failure of the key file\<close>

text \<open>
  The key file is opened only once the availability zone has been looked up: a run in
  which that lookup fails ends before any file is opened.
\<close>

lemma zone_lookup_failure_opens_nothing:
  "first_availability_zone e = Inl err \<Longrightarrow> opened (stack_of (main os_path_join e)) = []"
  by (simp add: main_zone_lookup_failed)

text \<open>
  Claim C7. When the run reaches the key file and reading it fails, the run aborts with
  the error of that read, unchanged. The file has been opened exactly once; the six
  resources declared before the key pair stand registered, neither the key pair nor the
  instance is declared, and nothing is exported.
\<close>

theorem key_read_failure_aborts:
  assumes "first_availability_zone e = Inr z"
    and "files e (public_key_path os_path_join (cwd e)) = Inl err"
  shows "\<exists>st. main os_path_join e = Aborted err st
           \<and> opened st = [public_key_path os_path_join (cwd e)]
           \<and> resources st = [vpc, igw, public_subnet z, route_table, route_table_association z,
                              ssh_security_group]
           \<and> filter is_KeyPair (resources st) = []
           \<and> filter is_Instance (resources st) = []
           \<and> outputs st = []"
  using main_key_read_failed [OF assms] by simp

lemma missing_key_env_inputs:
  "first_availability_zone missing_key_env = Inr ''ap-southeast-1a''"
  "public_key_path posixpath_join (cwd missing_key_env) = ''/home/ubuntu/infra/id_rsa_pulumi.pub''"
  "files missing_key_env p = Inl (FileNotFoundError p)"
  by (simp_all add: missing_key_env_def example_env_def first_availability_zone_def
      public_key_path_def posixpath_join_def startswith_def endswith_def)

theorem key_read_failure_aborts_witness:
  "first_availability_zone missing_key_env = Inr ''ap-southeast-1a''
   \<and> files missing_key_env (public_key_path posixpath_join (cwd missing_key_env))
       = Inl (FileNotFoundError ''/home/ubuntu/infra/id_rsa_pulumi.pub'')
   \<and> (\<exists>st. main posixpath_join missing_key_env
              = Aborted (FileNotFoundError ''/home/ubuntu/infra/id_rsa_pulumi.pub'') st
           \<and> opened st = [''/home/ubuntu/infra/id_rsa_pulumi.pub'']
           \<and> length (resources st) = 6
           \<and> filter is_KeyPair (resources st) = []
           \<and> filter is_Instance (resources st) = []
           \<and> outputs st = [])"
proof -
  have az: "first_availability_zone missing_key_env = Inr ''ap-southeast-1a''"
    by (rule missing_key_env_inputs)
  have missing: "files missing_key_env (public_key_path posixpath_join (cwd missing_key_env))
       = Inl (FileNotFoundError ''/home/ubuntu/infra/id_rsa_pulumi.pub'')"
    by (simp add: missing_key_env_inputs)
  from key_read_failure_aborts [OF az missing] obtain st where
    "main posixpath_join missing_key_env
       = Aborted (FileNotFoundError ''/home/ubuntu/infra/id_rsa_pulumi.pub'') st"
    "opened st = [''/home/ubuntu/infra/id_rsa_pulumi.pub'']"
    "length (resources st) = 6"
    "filter is_KeyPair (resources st) = []"
    "filter is_Instance (resources st) = []"
    "outputs st = []"
    by (auto simp add: missing_key_env_inputs)
  with az missing show ?thesis
    by - (intro conjI, assumption, assumption, rule exI [of _ st], simp)
qed

subsection \<open>What the declaration depends on\<close>

text \<open>
  Claim C8, as the code has it. The outcome of a run (the resources, the outputs, or the
  error and the stack at the abort) is a function of three inputs only: the current
  working directory, the result of reading the public-key file found there, and the
  result of \<open>get_availability_zones().names[0]\<close>. Two runs that agree on the three
  have the same outcome, whatever else differs.
\<close>

theorem main_depends_only_on:
  assumes "cwd e1 = cwd e2"
    and "files e1 (public_key_path os_path_join (cwd e1)) = files e2 (public_key_path os_path_join (cwd e2))"
    and "first_availability_zone e1 = first_availability_zone e2"
  shows "main os_path_join e1 = main os_path_join e2"
proof (cases "first_availability_zone e2")
  case (Inl err)
  with assms(3) show ?thesis by (simp add: main_zone_lookup_failed)
next
  case zone: (Inr z)
  with assms(3) have zone1: "first_availability_zone e1 = Inr z" by simp
  show ?thesis
  proof (cases "files e2 (public_key_path os_path_join (cwd e2))")
    case (Inl err)
    with assms(2) have "files e1 (public_key_path os_path_join (cwd e1)) = Inl err" by simp
    from main_key_read_failed [OF zone1 this] main_key_read_failed [OF zone Inl] assms(1)
    show ?thesis by simp
  next
    case (Inr contents)
    with assms(2) have "files e1 (public_key_path os_path_join (cwd e1)) = Inr contents" by simp
    from main_finished [OF zone1 this] main_finished [OF zone Inr] assms(1)
    show ?thesis by simp
  qed
qed

lemma crowded_env_inputs:
  "first_availability_zone crowded_env = Inr ''ap-southeast-1a''"
  "cwd crowded_env = ''/home/ubuntu/infra''"
  "files crowded_env ''/home/ubuntu/infra/id_rsa_pulumi.pub'' = Inr example_key"
  "files crowded_env ''/etc/hostname'' = Inr ''unrelated''"
  "availability_zones crowded_env = Inr [''ap-southeast-1a'']"
  by (simp_all add: crowded_env_def first_availability_zone_def)

theorem main_depends_only_on_witness:
  "cwd example_env = cwd crowded_env
   \<and> files example_env (public_key_path posixpath_join (cwd example_env))
       = files crowded_env (public_key_path posixpath_join (cwd crowded_env))
   \<and> first_availability_zone example_env = first_availability_zone crowded_env
   \<and> files example_env ''/etc/hostname'' \<noteq> files crowded_env ''/etc/hostname''
   \<and> availability_zones example_env \<noteq> availability_zones crowded_env
   \<and> main posixpath_join example_env = main posixpath_join crowded_env"
proof -
  have same:
    "cwd example_env = cwd crowded_env"
    "files example_env (public_key_path posixpath_join (cwd example_env))
       = files crowded_env (public_key_path posixpath_join (cwd crowded_env))"
    "first_availability_zone example_env = first_availability_zone crowded_env"
    by (simp_all add: example_env_inputs crowded_env_inputs)
  have other:
    "files example_env ''/etc/hostname'' \<noteq> files crowded_env ''/etc/hostname''"
    "availability_zones example_env \<noteq> availability_zones crowded_env"
    by (simp_all add: crowded_env_inputs) (simp_all add: example_env_def)
  from main_depends_only_on [OF same] same other show ?thesis by simp
qed

text \<open>
  The claim as stated names the key file and the credentials only. Two environments
  with the same working directory and the same files, in which the provider answers
  the zone lookup for different regions, declare different subnets.
\<close>

lemma other_region_env_inputs:
  "first_availability_zone other_region_env = Inr ''us-east-1a''"
  "cwd other_region_env = ''/home/ubuntu/infra''"
  "files other_region_env ''/home/ubuntu/infra/id_rsa_pulumi.pub'' = Inr example_key"
  by (simp_all add: other_region_env_def example_env_def first_availability_zone_def)

theorem zone_lookup_changes_declaration_counterexample:
  "cwd example_env = cwd other_region_env
   \<and> files example_env = files other_region_env
   \<and> main posixpath_join example_env \<noteq> main posixpath_join other_region_env
   \<and> map availability_zone
        (map subnet_args (filter is_Subnet (resources (stack_of (main posixpath_join example_env)))))
       = [''ap-southeast-1a'']
   \<and> map availability_zone
        (map subnet_args (filter is_Subnet (resources (stack_of (main posixpath_join other_region_env)))))
       = [''us-east-1a'']"
proof -
  have same: "cwd example_env = cwd other_region_env" "files example_env = files other_region_env"
    by (simp_all add: other_region_env_def)
  have here: "map availability_zone
        (map subnet_args (filter is_Subnet (resources (stack_of (main posixpath_join example_env)))))
       = [''ap-southeast-1a'']"
    by (simp add: main_example_env public_subnet_def)
  have there: "map availability_zone
        (map subnet_args (filter is_Subnet (resources (stack_of (main posixpath_join other_region_env)))))
       = [''us-east-1a'']"
    using main_finished [where e = other_region_env and os_path_join = posixpath_join
        and contents = example_key]
    by (simp add: other_region_env_inputs example_env_inputs public_subnet_def)
  from here there have "main posixpath_join example_env \<noteq> main posixpath_join other_region_env"
    by auto
  with same here there show ?thesis by simp
qed

subsection \<open>The subnet lies in the VPC\<close>

lemma declared_blocks:
  "parse_cidr (VpcArgs.cidr_block (vpc_args vpc)) = Some (0x0A000000, 16)"
  "parse_cidr (SubnetArgs.cidr_block (subnet_args (public_subnet az))) = Some (0x0A000100, 24)"
  by (simp_all add: vpc_def public_subnet_def parse_cidr_def parse_ipv4_def parse_octet_def
      parse_nat_def digit_value_def)

lemma cidr_member_unat:
  "cidr_member (base, len) a \<longleftrightarrow>
     unat a div 2 ^ (32 - len) = unat base div 2 ^ (32 - len)"
  by (simp add: cidr_member_def word_unat_eq_iff unat_drop_bit_eq
      drop_bit_eq_div [where ?'a = nat])

lemma subnet_block_range:
  "cidr_member (0x0A000100, 24) a \<longleftrightarrow> 167772416 \<le> unat a \<and> unat a \<le> 167772671"
  by (simp add: cidr_member_unat) arith

lemma vpc_block_range:
  "cidr_member (0x0A000000, 16) a \<longleftrightarrow> 167772160 \<le> unat a \<and> unat a \<le> 167837695"
  by (simp add: cidr_member_unat) arith

text \<open>
  Claim C9. Both declared blocks are well-formed CIDR blocks, the subnet's is the
  addresses 167772416 to 167772671 (10.0.1.0 to 10.0.1.255), the VPC's is the
  addresses 167772160 to 167837695 (10.0.0.0 to 10.0.255.255), and every 32-bit
  address of the subnet's block is an address of the VPC's block.
\<close>

theorem subnet_block_within_vpc_block:
  "\<exists>v s. parse_cidr (VpcArgs.cidr_block (vpc_args vpc)) = Some v
        \<and> parse_cidr (SubnetArgs.cidr_block (subnet_args (public_subnet az))) = Some s
        \<and> (\<forall>a. cidr_member s a \<longleftrightarrow> 167772416 \<le> unat a \<and> unat a \<le> 167772671)
        \<and> (\<forall>a. cidr_member v a \<longleftrightarrow> 167772160 \<le> unat a \<and> unat a \<le> 167837695)
        \<and> (\<forall>a. cidr_member s a \<longrightarrow> cidr_member v a)"
  by (simp add: declared_blocks subnet_block_range vpc_block_range)

theorem subnet_block_within_vpc_block_witness:
  "\<exists>v s. parse_cidr (VpcArgs.cidr_block (vpc_args vpc)) = Some v
        \<and> parse_cidr (SubnetArgs.cidr_block (subnet_args (public_subnet ''ap-southeast-1a'')))
            = Some s
        \<and> cidr_member s 0x0A000107 \<and> cidr_member v 0x0A000107
        \<and> \<not> cidr_member s 0x0A000207 \<and> cidr_member v 0x0A000207"
proof -
  from subnet_block_within_vpc_block [of "''ap-southeast-1a''"] obtain v s where
    v: "parse_cidr (VpcArgs.cidr_block (vpc_args vpc)) = Some v"
    and s: "parse_cidr (SubnetArgs.cidr_block (subnet_args (public_subnet ''ap-southeast-1a'')))
            = Some s"
    and sr: "\<And>a. cidr_member s a \<longleftrightarrow> 167772416 \<le> unat a \<and> unat a \<le> 167772671"
    and vr: "\<And>a. cidr_member v a \<longleftrightarrow> 167772160 \<le> unat a \<and> unat a \<le> 167837695"
    and sub: "\<And>a. cidr_member s a \<Longrightarrow> cidr_member v a"
    by blast
  have inside: "cidr_member s 0x0A000107" by (simp add: sr)
  from sub [OF inside] have "cidr_member v 0x0A000107" .
  moreover have "\<not> cidr_member s 0x0A000207" "cidr_member v 0x0A000207"
    by (simp_all add: sr vr)
  ultimately show ?thesis using v s inside by blast
qed

subsection \<open>The identity file and the key file\<close>

lemma public_key_path_plain:
  assumes "current_dir \<noteq> []" and "\<not> endswith current_dir ''/''"
  shows "public_key_path posixpath_join current_dir = (current_dir @ ''/id_rsa_pulumi'') @ ''.pub''"
  using assms by (simp add: public_key_path_def posixpath_join_def startswith_def)

lemma public_key_path_root: "public_key_path posixpath_join ''/'' = ''/id_rsa_pulumi.pub''"
  by (simp add: public_key_path_def posixpath_join_def startswith_def endswith_def)

text \<open>
  Where the platform's join puts a backslash between the directory and the file name,
  as \<open>ntpath.join\<close> does after a drive-letter directory, the path read is not the
  identity-file path of the command followed by \<open>.pub\<close>.
\<close>

lemma backslash_join_differs:
  assumes "os_path_join current_dir ''id_rsa_pulumi.pub''
             = current_dir @ [CHR 0x5C] @ ''id_rsa_pulumi.pub''"
  shows "public_key_path os_path_join current_dir \<noteq> (current_dir @ ''/id_rsa_pulumi'') @ ''.pub''"
  using assms by (simp add: public_key_path_def)

text \<open>
  Claim C10, as the code has it. On a platform whose \<open>os.path\<close> is \<open>posixpath\<close>,
  and for a working directory that is not empty and does not end with a slash (every
  directory but the root, as \<open>os.getcwd()\<close> returns it), the path opened for the key
  pair is the identity-file path of the exported command followed by \<open>.pub\<close>, that
  path being the working directory followed by \<open>/id_rsa_pulumi\<close>.
\<close>

theorem identity_file_matches_key_file:
  assumes "main os_path_join e = Finished st"
    and "os_path_join = posixpath_join"
    and "cwd e \<noteq> []"
    and "\<not> endswith (cwd e) ''/''"
  shows "opened st = [(cwd e @ ''/id_rsa_pulumi'') @ ''.pub'']
         \<and> (\<exists>v i. map_of (outputs st) ''ssh_command'' = Some v
                \<and> filter is_Instance (resources st) = [i]
                \<and> (\<forall>known. resolve known v =
                       ''ssh -i '' @ (cwd e @ ''/id_rsa_pulumi'') @ '' ubuntu@''
                         @ resolve known (attr i ''public_ip'')))"
proof -
  from assms(1) obtain z c where
    r: "resources st = [vpc, igw, public_subnet z, route_table, route_table_association z,
           ssh_security_group, key_pair (universal_newlines c),
           ec2_instance z (universal_newlines c)]"
    and out: "outputs st = [(''instance_public_ip'',
                    attr (ec2_instance z (universal_newlines c)) ''public_ip''),
                 (''ssh_command'',
                    ssh_command (cwd e)
                      (attr (ec2_instance z (universal_newlines c)) ''public_ip''))]"
    and op: "opened st = [public_key_path os_path_join (cwd e)]"
    by (rule main_Finished_stack)
  from op assms(2,3,4) have "opened st = [(cwd e @ ''/id_rsa_pulumi'') @ ''.pub'']"
    by (simp add: public_key_path_plain)
  moreover from r out have "\<exists>v i. map_of (outputs st) ''ssh_command'' = Some v
                \<and> filter is_Instance (resources st) = [i]
                \<and> (\<forall>known. resolve known v =
                       ''ssh -i '' @ (cwd e @ ''/id_rsa_pulumi'') @ '' ubuntu@''
                         @ resolve known (attr i ''public_ip''))"
    by (simp add: ssh_command_def)
  ultimately show ?thesis by (rule conjI)
qed

theorem identity_file_matches_key_file_witness:
  "cwd example_env \<noteq> [] \<and> \<not> endswith (cwd example_env) ''/''
   \<and> (\<exists>st. main posixpath_join example_env = Finished st
          \<and> opened st = [''/home/ubuntu/infra/id_rsa_pulumi'' @ ''.pub'']
          \<and> (\<exists>v. map_of (outputs st) ''ssh_command'' = Some v
                 \<and> resolve example_known v =
                     ''ssh -i '' @ ''/home/ubuntu/infra/id_rsa_pulumi'' @ '' ubuntu@''
                       @ ''203.0.113.10''))"
proof -
  obtain st where run: "main posixpath_join example_env = Finished st"
    using main_example_env by blast
  have plain: "cwd example_env \<noteq> []" "\<not> endswith (cwd example_env) ''/''"
    by (simp_all add: example_env_inputs endswith_def)
  from identity_file_matches_key_file [OF run refl plain] obtain v i where
    op: "opened st = [(cwd example_env @ ''/id_rsa_pulumi'') @ ''.pub'']"
    and v: "map_of (outputs st) ''ssh_command'' = Some v"
    and i: "filter is_Instance (resources st) = [i]"
    and r: "\<And>known. resolve known v =
                       ''ssh -i '' @ (cwd example_env @ ''/id_rsa_pulumi'') @ '' ubuntu@''
                         @ resolve known (attr i ''public_ip'')"
    by auto
  from run i have "i = ec2_instance ''ap-southeast-1a'' (universal_newlines example_key)"
    by (auto simp add: main_example_env)
  then have "resolve example_known (attr i ''public_ip'') = ''203.0.113.10''"
    by (simp add: attr_declared example_known_def)
  with r [of example_known] have
    "resolve example_known v =
       ''ssh -i '' @ ''/home/ubuntu/infra/id_rsa_pulumi'' @ '' ubuntu@'' @ ''203.0.113.10''"
    by (simp add: example_env_inputs)
  moreover from op have "opened st = [''/home/ubuntu/infra/id_rsa_pulumi'' @ ''.pub'']"
    by (simp add: example_env_inputs)
  ultimately show ?thesis using run v plain
    by - (intro conjI, assumption, assumption, rule exI [of _ st], simp)
qed

text \<open>
  The claim as stated, for every working directory, fails in the root directory of a
  POSIX system: \<open>posixpath.join\<close> adds no second slash, the exported command does.
\<close>

lemma root_env_inputs:
  "first_availability_zone root_env = Inr ''ap-southeast-1a''"
  "cwd root_env = ''/''"
  "files root_env ''/id_rsa_pulumi.pub'' = Inr example_key"
  by (simp_all add: root_env_def first_availability_zone_def)

theorem root_directory_paths_counterexample:
  "cwd root_env = ''/''
   \<and> main posixpath_join root_env = Finished (stack_of (main posixpath_join root_env))
   \<and> opened (stack_of (main posixpath_join root_env)) = [''/id_rsa_pulumi.pub'']
   \<and> map (resolve example_known) (map snd (outputs (stack_of (main posixpath_join root_env))))
       = [''203.0.113.10'', ''ssh -i //id_rsa_pulumi ubuntu@203.0.113.10'']
   \<and> ''/id_rsa_pulumi.pub'' \<noteq> ''//id_rsa_pulumi'' @ ''.pub''"
  using main_finished [where e = root_env and os_path_join = posixpath_join
      and contents = example_key]
  by (simp add: root_env_inputs public_key_path_root attr_declared example_known_def
      ssh_command_def)

end
